theory Spec2Isabelle
  imports Main "HOL-Library.AList" "HOL-Library.Char_ord" "HOL-Library.List_Lexorder"
begin

section \<open>Data model of the video generation server\<close>

text \<open>
  The server keeps three module-level dictionaries (\<open>jobs_db\<close>, \<open>videos_db\<close>,
  \<open>keyframes_db\<close>) and rewrites one JSON document after every mutation. Python
  dictionaries keep insertion order and the listings depend on it, so each dictionary is
  an association list: \<open>map_of\<close> is the lookup, \<open>AList.update\<close> is
  \<open>d[k] = v\<close> (it overwrites in place or appends), \<open>AList.delete\<close> is \<open>del d[k]\<close>.

  \<open>datetime.now()\<close> is a logical clock kept in the state: every call reads the counter
  and advances it. The local file system is the set of paths that exist.
\<close>

datatype JobStatus = PENDING | UPLOADING | GENERATING | DOWNLOADING | PROCESSING | COMPLETED | FAILED

record Job =
  job_id :: string
  product_name :: string
  status :: JobStatus
  progress :: int
  message :: string
  created_at :: nat
  updated_at :: nat
  video_url :: "string option"
  error :: "string option"

text \<open>The dictionary stored in \<open>videos_db\<close> by the pipeline (lines 267-279).\<close>

record VideoInfo =
  video_id :: string
  video_product_name :: string
  video_prompt :: string
  video_status :: string
  video_created_at :: nat
  final_video_path :: string
  original_video_path :: string
  start_keyframe :: string
  end_keyframe :: "string option"
  video_job_id :: string
  s3_uri :: "string option"

record Keyframes =
  start_frame :: "string option"
  end_frame :: "string option"
  uploaded_at :: nat

record VideoSettings =
  aspect_ratio :: string
  duration :: string
  resolution :: string
  loop :: bool
  region :: string

record VideoGenerationRequest =
  req_product_name :: string
  req_prompt :: string
  req_s3_bucket :: string
  req_settings :: VideoSettings

text \<open>The document written by \<open>save_database\<close>.\<close>

record snapshot =
  snap_jobs :: "(string \<times> Job) list"
  snap_videos :: "(string \<times> VideoInfo) list"
  snap_keyframes :: "(string \<times> Keyframes) list"
  last_updated :: nat

record state =
  jobs_db :: "(string \<times> Job) list"
  videos_db :: "(string \<times> VideoInfo) list"
  keyframes_db :: "(string \<times> Keyframes) list"
  disk :: "snapshot option"
  db_writable :: bool
  files :: "string set"
  clock :: nat

text \<open>
  Exceptions that matter to the handlers: \<open>PyException m\<close> is any instance of
  \<open>Exception\<close> whose \<open>str\<close> is \<open>m\<close>; \<open>SystemExit c\<close> is what \<open>sys.exit(c)\<close> raises,
  a \<open>BaseException\<close> that \<open>except Exception\<close> does not catch.
\<close>

datatype exn = PyException string | SystemExit int

datatype http_exception = HTTPException nat string

text \<open>Python truthiness of an \<open>Optional[str]\<close>: \<open>None\<close> and the empty string are falsy.\<close>

definition truthy :: "string option \<Rightarrow> bool" where
  "truthy x = (case x of None \<Rightarrow> False | Some t \<Rightarrow> t \<noteq> [])"

section \<open>Job store\<close>

text \<open>
  \<open>save_database\<close> (lines 61-73) builds the document, reading the clock, and writes it.
  A failing write is caught and only printed: the state keeps the old document.
\<close>

definition save_database :: "state \<Rightarrow> state" where
  "save_database s =
     (let data = \<lparr>snap_jobs = jobs_db s, snap_videos = videos_db s,
                  snap_keyframes = keyframes_db s, last_updated = clock s\<rparr>;
          s' = s\<lparr>clock := Suc (clock s)\<rparr>
      in if db_writable s then s'\<lparr>disk := Some data\<rparr> else s')"

text \<open>\<open>create_job\<close> (lines 155-173); \<open>new_id\<close> is the value of \<open>str(uuid.uuid4())\<close>.\<close>

definition create_job :: "string \<Rightarrow> string \<Rightarrow> state \<Rightarrow> state" where
  "create_job new_id pname s =
     (let timestamp = clock s;
          s' = s\<lparr>clock := Suc (clock s)\<rparr>;
          j = \<lparr>job_id = new_id, product_name = pname, status = PENDING, progress = 0,
               message = ''Job created'', created_at = timestamp, updated_at = timestamp,
               video_url = None, error = None\<rparr>
      in save_database (s'\<lparr>jobs_db := AList.update new_id j (jobs_db s')\<rparr>))"

text \<open>\<open>update_job\<close> (lines 176-191): nothing happens for an unknown id.\<close>

definition update_job ::
  "string \<Rightarrow> JobStatus \<Rightarrow> int \<Rightarrow> string \<Rightarrow> string option \<Rightarrow> state \<Rightarrow> state" where
  "update_job jid st pr msg err s =
     (case map_of (jobs_db s) jid of
        None \<Rightarrow> s
      | Some j \<Rightarrow>
          (let j1 = j\<lparr>status := st, progress := pr, message := msg, updated_at := clock s\<rparr>;
               j2 = (if truthy err then j1\<lparr>error := err\<rparr> else j1);
               s' = s\<lparr>clock := Suc (clock s)\<rparr>
           in save_database (s'\<lparr>jobs_db := AList.update jid j2 (jobs_db s')\<rparr>)))"

text \<open>The job record of an id, as \<open>GET /api/jobs/{job_id}\<close> reads it.\<close>

definition job_of :: "string \<Rightarrow> state \<Rightarrow> Job option" where
  "job_of jid s = map_of (jobs_db s) jid"

definition video_of :: "string \<Rightarrow> state \<Rightarrow> VideoInfo option" where
  "video_of vid s = map_of (videos_db s) vid"

section \<open>External collaborators\<close>

text \<open>
  What the environment answers is a parameter of the model: the Bedrock client
  (\<open>start_async_invoke\<close>, and the reply to the i-th \<open>get_async_invoke\<close>, which may raise),
  the seconds elapsed at the i-th query, whether the S3 transfers succeed, and what the
  ffmpeg runs inside \<open>process_video\<close> do. Reading an existing file and removing one succeed.
\<close>

record status_response =
  resp_status :: string
  resp_s3Uri :: "string option"
  failureMessage :: "string option"

datatype poll_reply = QueryRaises string | QueryReturns status_response

datatype tool_outcome = ToolOk | FfmpegError | OtherError

record env =
  start_async_invoke :: "string + string"
  get_async_invoke :: "nat \<Rightarrow> poll_reply"
  elapsed :: "nat \<Rightarrow> int"
  s3_fetch_ok :: bool
  ffmpeg_run :: tool_outcome
  s3_put_ok :: bool
  strftime_now :: string

section \<open>Polling the generation service\<close>

text \<open>
  The \<open>while True\<close> loop of \<open>generate_video_with_keyframes\<close> (lines 174-209). It can run
  forever, so it takes fuel: the number of queries it is allowed to make. \<open>StillPolling\<close>
  says the fuel ran out with the loop still running. The loop's visible actions are
  recorded as events: the i-th status query, the status line it prints, and \<open>time.sleep\<close>.
  An exception inside the loop reaches the function's \<open>except Exception\<close>, which returns
  \<open>None\<close>; so does a \<open>Completed\<close> reply without an output location (a \<open>KeyError\<close>).
\<close>

datatype event = Query nat | Report int string | Sleep nat

datatype gen_outcome = Returned "string option" | StillPolling

fun poll_loop :: "env \<Rightarrow> nat \<Rightarrow> nat \<Rightarrow> string option \<Rightarrow> gen_outcome \<times> event list" where
  "poll_loop e 0 i last_status = (StillPolling, [])"
| "poll_loop e (Suc fuel) i last_status =
     (case get_async_invoke e i of
        QueryRaises m \<Rightarrow> (Returned None, [Query i])
      | QueryReturns r \<Rightarrow>
          (let current_status = resp_status r;
               changed = (Some current_status \<noteq> last_status);
               report = (if changed then [Report (elapsed e i) current_status] else []);
               last_status' = (if changed then Some current_status else last_status)
           in if current_status = ''Completed'' then
                (case resp_s3Uri r of
                   None \<Rightarrow> (Returned None, Query i # report)
                 | Some output_uri \<Rightarrow> (Returned (Some output_uri), Query i # report))
              else if current_status = ''Failed'' then (Returned None, Query i # report)
              else (case poll_loop e fuel (Suc i) last_status' of
                      (res, evs) \<Rightarrow> (res, Query i # report @ Sleep 15 # evs))))"

text \<open>
  \<open>generate_video_with_keyframes\<close> (lines 49-213): the two existence checks, the
  submission, then the loop from query 0 with no status seen yet.
\<close>

definition generate_video_with_keyframes ::
  "env \<Rightarrow> nat \<Rightarrow> string \<Rightarrow> string option \<Rightarrow> string set \<Rightarrow> gen_outcome \<times> event list" where
  "generate_video_with_keyframes e fuel start_frame_path end_frame_path fs =
     (if start_frame_path \<notin> fs then (Returned None, [])
      else if (case end_frame_path of None \<Rightarrow> False | Some p \<Rightarrow> p \<noteq> [] \<and> p \<notin> fs)
        then (Returned None, [])
      else (case start_async_invoke e of
              Inl m \<Rightarrow> (Returned None, [])
            | Inr invocation_arn \<Rightarrow> poll_loop e fuel 0 None))"

section \<open>Object store and post-processing\<close>

text \<open>
  \<open>pathlib\<close>'s \<open>/\<close> and \<open>os.path.join\<close> are both modelled as joining with one slash
  (they agree on names without slashes).
\<close>

definition path_join :: "string \<Rightarrow> string \<Rightarrow> string" where
  "path_join d n = d @ ''/'' @ n"

definition VIDEOS_DIR :: string where
  "VIDEOS_DIR = ''/app/data/videos''"

text \<open>
  \<open>download_from_s3\<close> (lines 12-84) and \<open>upload_to_s3\<close> (lines 87-131) catch every
  \<open>Exception\<close> and return \<open>None\<close>; they never raise.
\<close>

definition download_from_s3 ::
  "env \<Rightarrow> string \<Rightarrow> string \<Rightarrow> string set \<Rightarrow> string option \<times> string set" where
  "download_from_s3 e uri local_path fs =
     (if s3_fetch_ok e then (Some local_path, insert local_path fs) else (None, fs))"

definition upload_to_s3 :: "env \<Rightarrow> string \<Rightarrow> string \<Rightarrow> string set \<Rightarrow> string option" where
  "upload_to_s3 e local_path uri fs =
     (if local_path \<notin> fs then None
      else if s3_put_ok e then Some uri else None)"

text \<open>
  \<open>process_video\<close> (process_video.py, lines 14-81): a missing input raises
  \<open>FileNotFoundError\<close>; every failure after that ends in \<open>sys.exit(1)\<close>, for an
  \<open>ffmpeg.Error\<close> and for any other \<open>Exception\<close> alike. A successful run leaves the final
  file and removes its intermediate files; the files a failed run leaves behind are not
  tracked.
\<close>

definition process_video :: "env \<Rightarrow> string \<Rightarrow> string \<Rightarrow> string set \<Rightarrow> exn + string set" where
  "process_video e video_name base_dir fs =
     (let input_file = path_join base_dir (video_name @ ''.mp4'');
          reversed_file = path_join base_dir (video_name @ ''_reversed.mp4'');
          combined_file = path_join base_dir (video_name @ ''_combined.mp4'');
          final_file = path_join base_dir (video_name @ ''_final.mp4'');
          list_file = ''list.txt''
      in if input_file \<notin> fs then Inl (PyException (''Error: '' @ input_file @ '' not found''))
         else (case ffmpeg_run e of
                 ToolOk \<Rightarrow> Inr (insert final_file fs - {reversed_file, combined_file, list_file})
               | FfmpegError \<Rightarrow> Inl (SystemExit 1)
               | OtherError \<Rightarrow> Inl (SystemExit 1)))"

section \<open>The background pipeline\<close>

text \<open>\<open>str(KeyError(k))\<close> for a plain key: the key between single quotes.\<close>

definition key_error_str :: "string \<Rightarrow> string" where
  "key_error_str k = CHR 0x27 # k @ [CHR 0x27]"

text \<open>
  How a run of the background task ends: it returns, an exception leaves it, or it is
  still waiting for the generation service when the fuel is gone.
\<close>

datatype run_end = Finished | Escaped exn | Suspended

text \<open>
  The \<open>except Exception\<close> block of \<open>process_video_generation\<close> (lines 282-288). \<open>seen\<close> are
  the store states recorded so far.
\<close>

definition pipeline_except :: "string \<Rightarrow> exn \<Rightarrow> state list \<Rightarrow> state \<Rightarrow> state list \<times> run_end" where
  "pipeline_except jid ex seen s =
     (case ex of
        PyException error_msg \<Rightarrow>
          (seen @ [update_job jid FAILED 0 (''Error: '' @ error_msg) (Some error_msg) s], Finished)
      | SystemExit c \<Rightarrow> (seen, Escaped (SystemExit c)))"

text \<open>
  \<open>process_video_generation\<close> (lines 194-288). The result lists the state of the stores
  after each job update, in order (the states a client can read while the task awaits a
  step, and the one it leaves behind), and how the run ended.
\<close>

definition process_video_generation ::
  "env \<Rightarrow> nat \<Rightarrow> string \<Rightarrow> string \<Rightarrow> string \<Rightarrow> string \<Rightarrow> string \<Rightarrow> string option \<Rightarrow>
   VideoSettings \<Rightarrow> state \<Rightarrow> state list \<times> run_end" where
  "process_video_generation e fuel jid pname prompt s3_bucket start_frame_path end_frame_path
     settings s0 =
     (let s1 = update_job jid GENERATING 10 ''Generating video with AWS Bedrock...'' None s0 in
      case fst (generate_video_with_keyframes e fuel start_frame_path end_frame_path (files s1)) of
        StillPolling \<Rightarrow> ([s1], Suspended)
      | Returned uri \<Rightarrow>
          if \<not> truthy uri then
            pipeline_except jid
              (PyException ''Video generation failed - no S3 URI returned'') [s1] s1
          else
            (let s2 = update_job jid DOWNLOADING 50
                        ''Video generated! Downloading from S3...'' None s1;
                 job_id_short = take 8 jid;
                 video_base_name = pname @ ''_'' @ job_id_short;
                 output_path = path_join VIDEOS_DIR (video_base_name @ ''.mp4'');
                 s3 = s2\<lparr>files := snd (download_from_s3 e (the uri) output_path (files s2))\<rparr>;
                 s4 = update_job jid PROCESSING 70 ''Applying boomerang effect...'' None s3
             in case process_video e video_base_name VIDEOS_DIR (files s4) of
                  Inl ex \<Rightarrow> pipeline_except jid ex [s1, s2, s4] s4
                | Inr fs \<Rightarrow>
                    (let s5 = s4\<lparr>files := fs\<rparr>;
                         final_video_path = path_join VIDEOS_DIR (video_base_name @ ''_final.mp4'');
                         s6 = update_job jid PROCESSING 90
                                ''Uploading final video to S3...'' None s5;
                         final_s3_key = ''product-videos/'' @ pname @ ''/'' @ strftime_now e
                                          @ ''/'' @ video_base_name @ ''_final.mp4'';
                         final_s3_uri = ''s3://'' @ s3_bucket @ ''/'' @ final_s3_key;
                         uploaded_s3_uri = upload_to_s3 e final_video_path final_s3_uri (files s6)
                     in case job_of jid s6 of
                          None \<Rightarrow>
                            pipeline_except jid (PyException (key_error_str jid))
                              [s1, s2, s4, s6] s6
                        | Some j \<Rightarrow>
                            (let s7 = s6\<lparr>jobs_db := AList.update jid
                                         (j\<lparr>video_url := Some (''/api/videos/download/'' @ jid)\<rparr>)
                                         (jobs_db s6)\<rparr>;
                                 s8 = update_job jid COMPLETED 100
                                        ''Video processing completed!'' None s7;
                                 info = \<lparr>video_id = jid, video_product_name = pname,
                                         video_prompt = prompt, video_status = ''completed'',
                                         video_created_at =
                                           (case job_of jid s8 of
                                              Some j8 \<Rightarrow> created_at j8 | None \<Rightarrow> created_at j),
                                         final_video_path = final_video_path,
                                         original_video_path = output_path,
                                         start_keyframe = start_frame_path,
                                         end_keyframe = end_frame_path,
                                         video_job_id = jid, s3_uri = uploaded_s3_uri\<rparr>;
                                 s9 = save_database
                                        (s8\<lparr>videos_db := AList.update jid info (videos_db s8)\<rparr>)
                             in ([s1, s2, s4, s6, s9], Finished)))))"

section \<open>Endpoints\<close>

text \<open>The arguments \<open>background_tasks.add_task\<close> stores for one pipeline run.\<close>

record task =
  task_job_id :: string
  task_product_name :: string
  task_prompt :: string
  task_s3_bucket :: string
  task_start_frame_path :: string
  task_end_frame_path :: "string option"
  task_settings :: VideoSettings

text \<open>\<open>sep.join(xs)\<close>.\<close>

fun join_with :: "string \<Rightarrow> string list \<Rightarrow> string" where
  "join_with sep [] = []"
| "join_with sep [x] = x"
| "join_with sep (x # y # ys) = x @ sep @ join_with sep (y # ys)"

text \<open>The list of known products in the error message (lines 398-400).\<close>

definition available_list :: "state \<Rightarrow> string" where
  "available_list s =
     (if keyframes_db s \<noteq> [] then join_with '', '' (sort (map fst (keyframes_db s)))
      else ''none'')"

text \<open>
  \<open>generate_video\<close> (lines 387-443): the result is the HTTP error or the new job id, with
  the request's background tasks and the stores as the call leaves them.
\<close>

definition generate_video ::
  "string \<Rightarrow> VideoGenerationRequest \<Rightarrow> task list \<Rightarrow> state \<Rightarrow>
   (http_exception + string) \<times> task list \<times> state" where
  "generate_video new_id request background_tasks s =
     (let pname = req_product_name request in
      case map_of (keyframes_db s) pname of
        None \<Rightarrow>
          (Inl (HTTPException 400
                  (''No keyframes found for product: '' @ pname @ ''. ''
                   @ ''Please upload keyframes with this product name first. ''
                   @ ''Available products: '' @ available_list s)),
           background_tasks, s)
      | Some keyframe_data \<Rightarrow>
          if \<not> truthy (start_frame keyframe_data) then
            (Inl (HTTPException 400
                    (''No start frame found for product: '' @ pname @ ''. ''
                     @ ''Please upload keyframes.'')),
             background_tasks, s)
          else
            (let s' = create_job new_id pname s;
                 t = \<lparr>task_job_id = new_id, task_product_name = pname,
                      task_prompt = req_prompt request, task_s3_bucket = req_s3_bucket request,
                      task_start_frame_path = the (start_frame keyframe_data),
                      task_end_frame_path = end_frame keyframe_data,
                      task_settings = req_settings request\<rparr>
             in (Inr new_id, background_tasks @ [t], s')))"



section \<open>Observing a run of the polling loop\<close>

text \<open>
  A reply after which the loop polls again; the result it returns at any other reply;
  the statuses a run reported, the indices and the statuses it queried; and whether each
  query after the first event comes directly after a sleep of the poll interval.
\<close>

fun keeps_polling :: "poll_reply \<Rightarrow> bool" where
  "keeps_polling (QueryRaises m) = False"
| "keeps_polling (QueryReturns r) =
     (resp_status r \<noteq> ''Completed'' \<and> resp_status r \<noteq> ''Failed'')"





definition terminal_result :: "poll_reply \<Rightarrow> string option" where
  "terminal_result reply =
     (case reply of QueryRaises m \<Rightarrow> None
      | QueryReturns r \<Rightarrow> if resp_status r = ''Completed'' then resp_s3Uri r else None)"

section \<open>Observing a job\<close>

text \<open>
  What a client polling a job looks at: state, progress, error and video_url of the job
  with the given id in a state of the stores; and the records of one job in a sequence
  of states.
\<close>

definition job_view ::
  "string \<Rightarrow> state \<Rightarrow> (JobStatus \<times> int \<times> string option \<times> string option) option" where
  "job_view jid s = map_option (\<lambda>j. (status j, progress j, error j, video_url j)) (job_of jid s)"

definition job_history :: "string \<Rightarrow> state list \<Rightarrow> Job list" where
  "job_history jid tr = List.map_filter (job_of jid) tr"

section \<open>Counting artifacts\<close>


section \<open>Concrete stores and environments\<close>

text \<open>An empty server, and the same server after one job was created.\<close>

definition demo_state :: state where
  "demo_state = \<lparr>jobs_db = [], videos_db = [], keyframes_db = [], disk = None,
                  db_writable = True, files = {}, clock = 0\<rparr>"

definition pending_state :: state where
  "pending_state = create_job ''job-1'' ''watch_01'' demo_state"

text \<open>A server with keyframes for two products, and a request for a third.\<close>

definition kf_state :: state where
  "kf_state = demo_state\<lparr>keyframes_db :=
      [(''watch_01'', \<lparr>start_frame = Some ''/app/data/keyframes/a.jpg'',
                       end_frame = Some ''/app/data/keyframes/b.jpg'', uploaded_at = 0\<rparr>),
       (''bag_02'', \<lparr>start_frame = Some ''/app/data/keyframes/c.png'',
                     end_frame = None, uploaded_at = 1\<rparr>)]\<rparr>"

definition demo_settings :: VideoSettings where
  "demo_settings = \<lparr>aspect_ratio = ''16:9'', duration = ''5s'', resolution = ''720p'',
                     loop = False, region = ''us-west-2''\<rparr>"

definition unknown_request :: VideoGenerationRequest where
  "unknown_request = \<lparr>req_product_name = ''unknown_product'', req_prompt = ''slow rotation'',
                       req_s3_bucket = ''bucket'', req_settings = demo_settings\<rparr>"




text \<open>Replies of the generation service, and environments built from them: one where the third query finds the video completed and every later step succeeds, one where generation fails.\<close>

definition failed_reply :: status_response where
  "failed_reply = \<lparr>resp_status = ''Failed'', resp_s3Uri = None,
                    failureMessage = Some ''Quota exceeded''\<rparr>"

definition running_reply :: status_response where
  "running_reply = \<lparr>resp_status = ''InProgress'', resp_s3Uri = None, failureMessage = None\<rparr>"

definition completed_reply :: status_response where
  "completed_reply = \<lparr>resp_status = ''Completed'',
                       resp_s3Uri = Some ''s3://bucket/product-videos/watch_01/t/'',
                       failureMessage = None\<rparr>"

definition happy_env :: env where
  "happy_env = \<lparr>start_async_invoke = Inr ''arn:invocation/1'',
                  get_async_invoke = (\<lambda>i. QueryReturns (if i < 2 then running_reply else completed_reply)),
                  elapsed = (\<lambda>i. 15 * int i),
                  s3_fetch_ok = True, ffmpeg_run = ToolOk, s3_put_ok = True,
                  strftime_now = ''20250101_120000''\<rparr>"

definition failed_env :: env where
  "failed_env = happy_env\<lparr>get_async_invoke := (\<lambda>i. QueryReturns failed_reply)\<rparr>"

text \<open>
  The server of the scenario: keyframes of \<open>watch_01\<close> are registered and on disk, and a
  job for it was created. Then the environments of three runs: the post-processing tool
  fails, the archival upload fails, the download fails.
\<close>

definition ready_state :: state where
  "ready_state = create_job ''0a1b2c3d-uuid'' ''watch_01''
     (kf_state\<lparr>files := {''/app/data/keyframes/a.jpg'', ''/app/data/keyframes/b.jpg''}\<rparr>)"

definition ffmpeg_fails_env :: env where
  "ffmpeg_fails_env = happy_env\<lparr>ffmpeg_run := FfmpegError\<rparr>"

definition upload_fails_env :: env where
  "upload_fails_env = happy_env\<lparr>s3_put_ok := False\<rparr>"

definition download_fails_env :: env where
  "download_fails_env = happy_env\<lparr>s3_fetch_ok := False\<rparr>"

text \<open>The pipeline run of the scenario's job in an environment, with fuel for five queries.\<close>

definition scenario_run :: "env \<Rightarrow> state list \<times> run_end" where
  "scenario_run e =
     process_video_generation e 5 ''0a1b2c3d-uuid'' ''watch_01'' ''slow rotation'' ''bucket''
       ''/app/data/keyframes/a.jpg'' (Some ''/app/data/keyframes/b.jpg'') demo_settings
       ready_state"

section \<open>Reading a job through the store operations\<close>

lemma job_of_save_database: "job_of jid (save_database s) = job_of jid s"
  by (simp add: job_of_def save_database_def Let_def)

lemma job_of_update_job:
  "job_of jid (update_job jid st pr msg err s) =
     map_option (\<lambda>j. j\<lparr>status := st, progress := pr, message := msg, updated_at := clock s,
                        error := (if truthy err then err else error j)\<rparr>) (job_of jid s)"
  by (cases "map_of (jobs_db s) jid")
     (simp_all add: job_of_def update_job_def save_database_def Let_def update_conv')

lemma job_of_create_job:
  "job_of jid (create_job jid pname s) =
     Some \<lparr>job_id = jid, product_name = pname, status = PENDING, progress = 0,
           message = ''Job created'', created_at = clock s, updated_at = clock s,
           video_url = None, error = None\<rparr>"
  by (simp add: job_of_def create_job_def save_database_def Let_def update_conv')

section \<open>The job store's update operation\<close>

text \<open>
  C7. An update for a job id that is not in the store returns (the model has no
  exception here) and leaves the whole state as it was: every job record, the other
  registries, the persisted document and the clock.
\<close>

theorem update_job_unknown_is_noop:
  "jid \<notin> fst ` set (jobs_db s) \<Longrightarrow> update_job jid st pr msg err s = s"
proof -
  assume "jid \<notin> fst ` set (jobs_db s)"
  then have "map_of (jobs_db s) jid = None" by (simp add: map_of_eq_None_iff)
  then show ?thesis by (simp add: update_job_def)
qed

theorem update_job_unknown_is_noop_witness:
  "''job-1'' \<notin> fst ` set (jobs_db demo_state) \<and>
   update_job ''job-1'' FAILED 0 ''Error: x'' (Some ''x'') demo_state = demo_state"
proof -
  have h: "''job-1'' \<notin> fst ` set (jobs_db demo_state)" by (simp add: demo_state_def)
  from update_job_unknown_is_noop [OF h] h show ?thesis by simp
qed

text \<open>
  C10. An update of an existing job whose error argument is \<open>None\<close> or the empty string
  keeps the job's error field; an error that is set to a non-empty value is never cleared
  by an update; and when the pipeline's exception handler runs with an empty message, the
  job becomes FAILED with its error field as it was (unset, if it was unset).
\<close>

theorem update_job_keeps_error:
  "job_of jid s = Some j \<Longrightarrow>
   (err = None \<or> err = Some [] \<longrightarrow>
      map_option error (job_of jid (update_job jid st pr msg err s)) = Some (error j)) \<and>
   (truthy (error j) \<longrightarrow>
      (\<exists>j'. job_of jid (update_job jid st pr msg err s) = Some j' \<and> truthy (error j'))) \<and>
   map_option (\<lambda>j'. (status j', error j'))
     (job_of jid (last (fst (pipeline_except jid (PyException []) seen s))))
     = Some (FAILED, error j)"
  by (auto simp add: job_of_update_job pipeline_except_def truthy_def)

theorem update_job_keeps_error_witness:
  "job_of ''job-1'' pending_state \<noteq> None \<and>
   map_option error
     (job_of ''job-1'' (update_job ''job-1'' PROCESSING 70 ''m'' (Some []) pending_state))
     = Some None \<and>
   map_option (\<lambda>j'. (status j', error j'))
     (job_of ''job-1'' (last (fst (pipeline_except ''job-1'' (PyException []) [] pending_state))))
     = Some (FAILED, None)"
proof -
  let ?j = "\<lparr>job_id = ''job-1'', product_name = ''watch_01'', status = PENDING, progress = 0,
             message = ''Job created'', created_at = clock demo_state,
             updated_at = clock demo_state, video_url = None, error = None\<rparr>"
  have h: "job_of ''job-1'' pending_state = Some ?j"
    unfolding pending_state_def by (rule job_of_create_job)
  from update_job_keeps_error [OF h, of "Some []" PROCESSING 70 "''m''" "[]"] h
  show ?thesis by simp
qed

section \<open>Submitting a job\<close>

lemma join_with_mentions:
  "x \<in> set xs \<Longrightarrow> \<exists>a b. join_with sep xs = a @ x @ b"
proof (induction sep xs rule: join_with.induct)
  case (1 sep)
  then show ?case by simp
next
  case (2 sep y)
  then have "join_with sep [y] = [] @ x @ []" by simp
  then show ?case by blast
next
  case (3 sep y z zs)
  show ?case
  proof (cases "x = y")
    case True
    then have "join_with sep (y # z # zs) = [] @ x @ (sep @ join_with sep (z # zs))" by simp
    then show ?thesis by blast
  next
    case False
    with 3 obtain a b where "join_with sep (z # zs) = a @ x @ b" by auto
    then have "join_with sep (y # z # zs) = (y @ sep @ a) @ x @ b" by simp
    then show ?thesis by blast
  qed
qed

lemma available_list_mentions:
  "p \<in> fst ` set (keyframes_db s) \<Longrightarrow> \<exists>a b. available_list s = a @ p @ b"
proof -
  assume h: "p \<in> fst ` set (keyframes_db s)"
  then have ne: "keyframes_db s \<noteq> []" by auto
  from h have "p \<in> set (sort (map fst (keyframes_db s)))" by simp
  then show ?thesis unfolding available_list_def using ne
    by (simp add: join_with_mentions)
qed

text \<open>
  C3. A request for a product that the keyframe registry does not know fails at once
  with an HTTP error whose text says that no keyframes were found for the product and
  lists the known product names (each of them occurs in the text); no job is created
  and no background task is added: the stores and the task list are returned as they
  were.
\<close>

theorem generate_video_unknown_product:
  "req_product_name request \<notin> fst ` set (keyframes_db s) \<Longrightarrow>
   generate_video new_id request background_tasks s =
     (Inl (HTTPException 400
        (''No keyframes found for product: '' @ req_product_name request @ ''. ''
         @ ''Please upload keyframes with this product name first. ''
         @ ''Available products: '' @ available_list s)),
      background_tasks, s) \<and>
   (\<forall>p \<in> fst ` set (keyframes_db s). \<exists>a b. available_list s = a @ p @ b)"
proof -
  assume "req_product_name request \<notin> fst ` set (keyframes_db s)"
  then have "map_of (keyframes_db s) (req_product_name request) = None"
    by (simp add: map_of_eq_None_iff)
  then show ?thesis
    by (simp add: generate_video_def available_list_mentions)
qed

lemma available_list_kf_state: "available_list kf_state = ''bag_02, watch_01''"
  unfolding available_list_def kf_state_def demo_state_def by code_simp

theorem generate_video_unknown_product_witness:
  "req_product_name unknown_request \<notin> fst ` set (keyframes_db kf_state) \<and>
   generate_video ''job-7'' unknown_request [] kf_state =
     (Inl (HTTPException 400
        (''No keyframes found for product: unknown_product. ''
         @ ''Please upload keyframes with this product name first. ''
         @ ''Available products: bag_02, watch_01'')), [], kf_state)"
proof -
  have h: "req_product_name unknown_request \<notin> fst ` set (keyframes_db kf_state)"
    by (simp add: unknown_request_def kf_state_def demo_state_def)
  have n: "req_product_name unknown_request = ''unknown_product''"
    by (simp add: unknown_request_def)
  from generate_video_unknown_product [OF h, of "''job-7''" "[]"] h
  show ?thesis by (simp add: available_list_kf_state n)
qed

section \<open>Deleting an artifact\<close>




section \<open>The polling loop\<close>

lemma poll_loop_keeps_polling:
  "(\<And>j. i \<le> j \<Longrightarrow> j < i + n \<Longrightarrow> keeps_polling (get_async_invoke e j)) \<Longrightarrow>
   fst (poll_loop e n i last_status) = StillPolling"
proof (induction n arbitrary: i last_status)
  case 0
  then show ?case by simp
next
  case (Suc n)
  have "keeps_polling (get_async_invoke e i)" using Suc.prems [of i] by simp
  then obtain r where r: "get_async_invoke e i = QueryReturns r"
    "resp_status r \<noteq> ''Completed''" "resp_status r \<noteq> ''Failed''"
    by (cases "get_async_invoke e i") auto
  have "\<And>l. fst (poll_loop e n (Suc i) l) = StillPolling"
    by (rule Suc.IH) (use Suc.prems in simp)
  with r show ?case by (simp add: Let_def case_prod_unfold)
qed

lemma poll_loop_first_terminal:
  "(\<And>j. i \<le> j \<Longrightarrow> j < i + n \<Longrightarrow> keeps_polling (get_async_invoke e j)) \<Longrightarrow>
   \<not> keeps_polling (get_async_invoke e (i + n)) \<Longrightarrow>
   fst (poll_loop e (Suc (n + k)) i last_status)
     = Returned (terminal_result (get_async_invoke e (i + n)))"
proof (induction n arbitrary: i last_status)
  case 0
  then show ?case
    by (cases "get_async_invoke e i")
       (auto simp add: terminal_result_def Let_def split: option.splits)
next
  case (Suc n)
  have "keeps_polling (get_async_invoke e i)" using Suc.prems(1) [of i] by simp
  then obtain r where r: "get_async_invoke e i = QueryReturns r"
    "resp_status r \<noteq> ''Completed''" "resp_status r \<noteq> ''Failed''"
    by (cases "get_async_invoke e i") auto
  have "\<And>l. fst (poll_loop e (Suc (n + k)) (Suc i) l)
          = Returned (terminal_result (get_async_invoke e (Suc i + n)))"
    by (rule Suc.IH) (use Suc.prems in simp_all)
  with r show ?case by (simp add: Let_def case_prod_unfold)
qed

text \<open>
  C2, as the code has it. While every reply so far is a status other than \<open>Completed\<close>
  and \<open>Failed\<close>, the loop is still polling, whatever the number of queries (there is
  no timeout). At the first reply that is not of this kind the loop returns, given fuel
  for that query: the declared output location on \<open>Completed\<close>, and \<open>None\<close> on
  \<open>Failed\<close> (the failure reason is printed, not returned) and when the query raises.
\<close>

theorem poll_loop_returns_at_first_terminal_status:
  "\<forall>j<n. keeps_polling (get_async_invoke e j) \<Longrightarrow>
   fst (poll_loop e n 0 None) = StillPolling \<and>
   (\<forall>fuel r. n < fuel \<and> get_async_invoke e n = QueryReturns r \<longrightarrow>
      (resp_status r = ''Completed'' \<longrightarrow> fst (poll_loop e fuel 0 None) = Returned (resp_s3Uri r)) \<and>
      (resp_status r = ''Failed'' \<longrightarrow> fst (poll_loop e fuel 0 None) = Returned None)) \<and>
   (\<forall>fuel m. n < fuel \<and> get_async_invoke e n = QueryRaises m \<longrightarrow>
      fst (poll_loop e fuel 0 None) = Returned None)"
proof -
  assume a: "\<forall>j<n. keeps_polling (get_async_invoke e j)"
  have still: "fst (poll_loop e n 0 None) = StillPolling"
    by (rule poll_loop_keeps_polling) (use a in simp)
  have ret: "fst (poll_loop e fuel 0 None) = Returned (terminal_result (get_async_invoke e n))"
    if "n < fuel" "\<not> keeps_polling (get_async_invoke e n)" for fuel
  proof -
    from \<open>n < fuel\<close> obtain k where k: "fuel = Suc (n + k)"
      by (metis less_iff_Suc_add)
    show ?thesis unfolding k
      using poll_loop_first_terminal [of 0 n e k None] a that(2) by simp
  qed
  show ?thesis using still ret by (auto simp add: terminal_result_def)
qed

theorem poll_loop_returns_at_first_terminal_status_witness:
  "keeps_polling (get_async_invoke happy_env 0) \<and>
   keeps_polling (get_async_invoke happy_env 1) \<and>
   fst (poll_loop happy_env 2 0 None) = StillPolling \<and>
   fst (poll_loop happy_env 3 0 None) = Returned (Some ''s3://bucket/product-videos/watch_01/t/'') \<and>
   fst (poll_loop failed_env 1 0 None) = Returned None"
proof -
  have h: "\<forall>j<2. keeps_polling (get_async_invoke happy_env j)"
    by (simp add: happy_env_def running_reply_def)
  have h0: "\<forall>j<0. keeps_polling (get_async_invoke failed_env j)" by simp
  have c: "get_async_invoke happy_env 2 = QueryReturns completed_reply"
    by (simp add: happy_env_def)
  have f: "get_async_invoke failed_env 0 = QueryReturns failed_reply"
    by (simp add: failed_env_def happy_env_def)
  from poll_loop_returns_at_first_terminal_status [OF h] c
  have "fst (poll_loop happy_env 2 0 None) = StillPolling"
    and "fst (poll_loop happy_env 3 0 None) = Returned (resp_s3Uri completed_reply)"
    by (simp_all add: completed_reply_def)
  moreover from poll_loop_returns_at_first_terminal_status [OF h0] f
  have "fst (poll_loop failed_env 1 0 None) = Returned None"
    by (simp add: failed_reply_def)
  moreover have "keeps_polling (get_async_invoke happy_env 0)"
    and "keeps_polling (get_async_invoke happy_env 1)" using h by simp_all
  ultimately show ?thesis by (simp add: completed_reply_def)
qed

text \<open>
  The claim as stated says that a \<open>Failed\<close> status makes the loop return the declared
  failure reason. On a service that answers \<open>Failed\<close> with the reason ``Quota exceeded''
  the loop returns \<open>None\<close>.
\<close>

theorem poll_loop_failed_returns_reason_counterexample:
  "get_async_invoke failed_env 0 = QueryReturns failed_reply \<and>
   resp_status failed_reply = ''Failed'' \<and>
   failureMessage failed_reply = Some ''Quota exceeded'' \<and>
   fst (poll_loop failed_env 1 0 None) = Returned None \<and>
   fst (poll_loop failed_env 1 0 None) \<noteq> Returned (failureMessage failed_reply)"
  by (simp add: failed_env_def happy_env_def failed_reply_def Let_def)











lemma happy_env_events:
  "snd (poll_loop happy_env 5 0 None) =
     [Query 0, Report 0 ''InProgress'', Sleep 15, Query 1, Sleep 15,
      Query 2, Report 30 ''Completed'']"
  by (simp add: happy_env_def running_reply_def completed_reply_def Let_def numeral_eq_Suc)

section \<open>The pipeline, case by case\<close>

lemma job_of_files_update [simp]: "job_of jid (s\<lparr>files := fs\<rparr>) = job_of jid s"
  by (simp add: job_of_def)

lemma job_of_videos_update [simp]: "job_of jid (s\<lparr>videos_db := vs\<rparr>) = job_of jid s"
  by (simp add: job_of_def)

lemma job_of_jobs_update [simp]:
  "job_of jid (s\<lparr>jobs_db := AList.update jid j (jobs_db s)\<rparr>) = Some j"
  by (simp add: job_of_def update_conv')

lemma process_video_cases:
  "process_video e n d fs = Inl (SystemExit 1) \<or>
   (\<exists>m. m \<noteq> [] \<and> process_video e n d fs = Inl (PyException m)) \<or>
   (\<exists>fs'. process_video e n d fs = Inr fs')"
  by (simp add: process_video_def Let_def split: tool_outcome.splits)

lemma pipeline_views:
  fixes e fuel jid pname prompt s3_bucket sp ep settings s0 j0
  assumes "job_of jid s0 = Some j0"
  defines "r \<equiv> process_video_generation e fuel jid pname prompt s3_bucket sp ep settings s0"
  defines "G \<equiv> Some (GENERATING, 10, error j0, video_url j0)"
  defines "D \<equiv> Some (DOWNLOADING, 50, error j0, video_url j0)"
  defines "P \<equiv> Some (PROCESSING, 70, error j0, video_url j0)"
  defines "Q \<equiv> Some (PROCESSING, 90, error j0, video_url j0)"
  shows "(map (job_view jid) (fst r), snd r) = ([G], Suspended) \<or>
         (\<exists>m. m \<noteq> [] \<and>
            (map (job_view jid) (fst r), snd r)
              = ([G, Some (FAILED, 0, Some m, video_url j0)], Finished)) \<or>
         (map (job_view jid) (fst r), snd r) = ([G, D, P], Escaped (SystemExit 1)) \<or>
         (\<exists>m. m \<noteq> [] \<and>
            (map (job_view jid) (fst r), snd r)
              = ([G, D, P, Some (FAILED, 0, Some m, video_url j0)], Finished)) \<or>
         (map (job_view jid) (fst r), snd r)
            = ([G, D, P, Q,
                Some (COMPLETED, 100, error j0, Some (''/api/videos/download/'' @ jid))],
               Finished)"
proof -
  let ?s1 = "update_job jid GENERATING 10 ''Generating video with AWS Bedrock...'' None s0"
  let ?g = "fst (generate_video_with_keyframes e fuel sp ep (files ?s1))"
  show ?thesis
  proof (cases ?g)
    case StillPolling
    then show ?thesis using assms(1)
      by (simp add: r_def G_def process_video_generation_def job_view_def job_of_update_job
            truthy_def Let_def)
  next
    case (Returned uri)
    show ?thesis
    proof (cases "truthy uri")
      case False
      with Returned show ?thesis using assms(1)
        by (simp add: r_def G_def process_video_generation_def pipeline_except_def job_view_def
              job_of_update_job truthy_def Let_def)
    next
      case True
      let ?s2 = "update_job jid DOWNLOADING 50 ''Video generated! Downloading from S3...'' None ?s1"
      let ?vb = "pname @ ''_'' @ take 8 jid"
      let ?s3 = "?s2\<lparr>files := snd (download_from_s3 e (the uri)
                    (path_join VIDEOS_DIR (?vb @ ''.mp4'')) (files ?s2))\<rparr>"
      let ?s4 = "update_job jid PROCESSING 70 ''Applying boomerang effect...'' None ?s3"
      from process_video_cases [of e ?vb VIDEOS_DIR "files ?s4"]
      show ?thesis
      proof (elim disjE exE conjE)
        assume "process_video e ?vb VIDEOS_DIR (files ?s4) = Inl (SystemExit 1)"
        with Returned True show ?thesis using assms(1)
          by (simp add: r_def G_def D_def P_def process_video_generation_def pipeline_except_def
                job_view_def job_of_update_job truthy_def Let_def)
      next
        fix m assume "m \<noteq> []" "process_video e ?vb VIDEOS_DIR (files ?s4) = Inl (PyException m)"
        with Returned True show ?thesis using assms(1)
          by (simp add: r_def G_def D_def P_def process_video_generation_def pipeline_except_def
                job_view_def job_of_update_job truthy_def Let_def)
      next
        fix fs' assume "process_video e ?vb VIDEOS_DIR (files ?s4) = Inr fs'"
        with Returned True show ?thesis using assms(1)
          by (simp add: r_def G_def D_def P_def Q_def process_video_generation_def
                pipeline_except_def job_view_def job_of_update_job job_of_save_database
                truthy_def Let_def)
      qed
    qed
  qed
qed

lemma videos_db_save_database [simp]: "videos_db (save_database s) = videos_db s"
  by (simp add: save_database_def Let_def)

lemma videos_db_update_job [simp]: "videos_db (update_job jid st pr msg err s) = videos_db s"
  by (simp add: update_job_def Let_def split: option.splits)



section \<open>Progress of a job\<close>

lemma videos_db_create_job [simp]: "videos_db (create_job jid pname s) = videos_db s"
  by (simp add: create_job_def Let_def)

lemma job_view_create_job:
  "job_view jid (create_job jid pname s) = Some (PENDING, 0, None, None)"
  by (simp add: job_view_def job_of_create_job)

lemma alive_progress:
  "map (job_view jid) tr = map Some vs \<Longrightarrow>
   map progress (filter (\<lambda>j. status j \<noteq> FAILED) (job_history jid tr))
     = map (\<lambda>v. fst (snd v)) (filter (\<lambda>v. fst v \<noteq> FAILED) vs)"
proof (induction tr arbitrary: vs)
  case Nil
  then show ?case by (simp add: job_history_def)
next
  case (Cons t tr)
  from Cons.prems obtain v vs' where vs: "vs = v # vs'"
    and v: "job_view jid t = Some v" and rest: "map (job_view jid) tr = map Some vs'"
    by (cases vs) auto
  from v obtain j where j: "job_of jid t = Some j"
    and jv: "v = (status j, progress j, error j, video_url j)"
    by (auto simp add: job_view_def)
  from Cons.IH [OF rest] j jv vs show ?case
    by (simp add: job_history_def)
qed

text \<open>
  C6. Take the records of one job in the order they are stored: the one
  \<open>create_job\<close> writes, then the one after each update of its pipeline run. Leaving out
  the records whose state is FAILED, the progress values never decrease. This holds
  for every environment and every amount of fuel, so also for a run that is still
  polling and for one that an exception leaves.
\<close>

theorem pipeline_progress_monotone:
  "sorted (map progress (filter (\<lambda>j. status j \<noteq> FAILED)
     (job_history jid
        (create_job jid pname s #
         fst (process_video_generation e fuel jid pname prompt s3_bucket sp ep settings
                (create_job jid pname s))))))"
proof -
  let ?s0 = "create_job jid pname s"
  let ?r = "process_video_generation e fuel jid pname prompt s3_bucket sp ep settings ?s0"
  let ?P = "(PENDING, 0::int, None::string option, None::string option)"
  let ?G = "(GENERATING, 10::int, None::string option, None::string option)"
  let ?D = "(DOWNLOADING, 50::int, None::string option, None::string option)"
  let ?A = "(PROCESSING, 70::int, None::string option, None::string option)"
  let ?B = "(PROCESSING, 90::int, None::string option, None::string option)"
  have v0: "job_view jid ?s0 = Some ?P" by (rule job_view_create_job)
  from pipeline_views [where e = e and fuel = fuel and pname = pname and prompt = prompt
      and s3_bucket = s3_bucket and sp = sp and ep = ep and settings = settings,
      OF job_of_create_job, of jid pname s]
  consider
    (polling) "map (job_view jid) (fst ?r) = map Some [?G]"
  | (genfail) m where "map (job_view jid) (fst ?r) = map Some [?G, (FAILED, 0, Some m, None)]"
  | (escaped) "map (job_view jid) (fst ?r) = map Some [?G, ?D, ?A]"
  | (procfail) m where
      "map (job_view jid) (fst ?r) = map Some [?G, ?D, ?A, (FAILED, 0, Some m, None)]"
  | (completed) "map (job_view jid) (fst ?r)
      = map Some [?G, ?D, ?A, ?B, (COMPLETED, 100, None, Some (''/api/videos/download/'' @ jid))]"
    by auto
  then show ?thesis
  proof cases
    case polling
    with v0 have "map (job_view jid) (?s0 # fst ?r) = map Some [?P, ?G]" by simp
    from alive_progress [OF this] show ?thesis by simp
  next
    case genfail
    with v0 have "map (job_view jid) (?s0 # fst ?r)
      = map Some [?P, ?G, (FAILED, 0, Some m, None)]" by simp
    from alive_progress [OF this] show ?thesis by simp
  next
    case escaped
    with v0 have "map (job_view jid) (?s0 # fst ?r) = map Some [?P, ?G, ?D, ?A]" by simp
    from alive_progress [OF this] show ?thesis by simp
  next
    case procfail
    with v0 have "map (job_view jid) (?s0 # fst ?r)
      = map Some [?P, ?G, ?D, ?A, (FAILED, 0, Some m, None)]" by simp
    from alive_progress [OF this] show ?thesis by simp
  next
    case completed
    with v0 have "map (job_view jid) (?s0 # fst ?r)
      = map Some [?P, ?G, ?D, ?A, ?B,
          (COMPLETED, 100, None, Some (''/api/videos/download/'' @ jid))]" by simp
    from alive_progress [OF this] show ?thesis by simp
  qed
qed

section \<open>Two runs of the scenario\<close>

lemma files_save_database [simp]: "files (save_database s) = files s"
  by (simp add: save_database_def Let_def)

lemma files_update_job [simp]: "files (update_job jid st pr msg err s) = files s"
  by (simp add: update_job_def Let_def split: option.splits)

lemma files_create_job [simp]: "files (create_job jid pname s) = files s"
  by (simp add: create_job_def Let_def)

lemma scenario_generation:
  "get_async_invoke e = get_async_invoke happy_env \<Longrightarrow>
   start_async_invoke e = start_async_invoke happy_env \<Longrightarrow>
   fst (generate_video_with_keyframes e 5 ''/app/data/keyframes/a.jpg''
          (Some ''/app/data/keyframes/b.jpg'')
          {''/app/data/keyframes/a.jpg'', ''/app/data/keyframes/b.jpg''})
     = Returned (Some ''s3://bucket/product-videos/watch_01/t/'')"
  by (simp add: generate_video_with_keyframes_def happy_env_def running_reply_def
        completed_reply_def Let_def numeral_eq_Suc)

lemma ready_files:
  "files ready_state = {''/app/data/keyframes/a.jpg'', ''/app/data/keyframes/b.jpg''}"
  by (simp add: ready_state_def kf_state_def demo_state_def)

lemma ready_job:
  "job_of ''0a1b2c3d-uuid'' ready_state =
     Some \<lparr>job_id = ''0a1b2c3d-uuid'', product_name = ''watch_01'', status = PENDING,
           progress = 0, message = ''Job created'', created_at = 0, updated_at = 0,
           video_url = None, error = None\<rparr>"
  by (simp add: ready_state_def job_of_create_job kf_state_def demo_state_def)

text \<open>
  C1 at a failing input. The scenario's job runs in an environment where generation
  and download succeed and the ffmpeg run inside \<open>process_video\<close> fails.
  \<open>process_video\<close> answers a tool failure with \<open>sys.exit(1)\<close>; the \<open>SystemExit\<close> is
  not an \<open>Exception\<close>, so the pipeline's handler does not catch it: it leaves the
  background task, and the job stays PROCESSING at 70 with no error recorded.
\<close>

theorem tool_failure_escapes_pipeline:
  "map (job_view ''0a1b2c3d-uuid'') (fst (scenario_run ffmpeg_fails_env))
     = [Some (GENERATING, 10, None, None), Some (DOWNLOADING, 50, None, None),
        Some (PROCESSING, 70, None, None)] \<and>
   snd (scenario_run ffmpeg_fails_env) = Escaped (SystemExit 1)"
  by (simp add: scenario_run_def process_video_generation_def pipeline_except_def
        scenario_generation ready_files ready_job ffmpeg_fails_env_def happy_env_def
        truthy_def Let_def job_view_def job_of_update_job job_of_save_database
        download_from_s3_def process_video_def)

text \<open>
  C5 at a failing input. The scenario's job runs in an environment where the archival
  upload fails. \<open>upload_to_s3\<close> reports the failure by returning \<open>None\<close>, the pipeline
  does not look at the result, and the job is recorded COMPLETED at 100, with an artifact
  whose archive location is \<open>None\<close>.
\<close>

theorem upload_failure_marks_completed:
  "map (job_view ''0a1b2c3d-uuid'') (fst (scenario_run upload_fails_env))
     = [Some (GENERATING, 10, None, None), Some (DOWNLOADING, 50, None, None),
        Some (PROCESSING, 70, None, None), Some (PROCESSING, 90, None, None),
        Some (COMPLETED, 100, None, Some ''/api/videos/download/0a1b2c3d-uuid'')] \<and>
   snd (scenario_run upload_fails_env) = Finished \<and>
   map_option s3_uri (video_of ''0a1b2c3d-uuid'' (last (fst (scenario_run upload_fails_env))))
     = Some None"
  by (simp add: scenario_run_def process_video_generation_def pipeline_except_def
        scenario_generation ready_files ready_job upload_fails_env_def happy_env_def
        truthy_def Let_def job_view_def job_of_update_job job_of_save_database
        download_from_s3_def process_video_def upload_to_s3_def video_of_def update_conv')

section \<open>Consistency of a job record\<close>










lemma download_failure_reaches_processing:
  "map (job_view ''0a1b2c3d-uuid'') (fst (scenario_run download_fails_env))
     = [Some (GENERATING, 10, None, None), Some (DOWNLOADING, 50, None, None),
        Some (PROCESSING, 70, None, None),
        Some (FAILED, 0, Some ''Error: /app/data/videos/watch_01_0a1b2c3d.mp4 not found'',
              None)] \<and>
   snd (scenario_run download_fails_env) = Finished"
  by (simp add: scenario_run_def process_video_generation_def pipeline_except_def
        scenario_generation ready_files ready_job download_fails_env_def happy_env_def
        truthy_def Let_def job_view_def job_of_update_job job_of_save_database
        download_from_s3_def process_video_def path_join_def VIDEOS_DIR_def)


end
